theory Spec2Isabelle
  imports Complex_Main "HOL-Library.Monad_Syntax"
begin

section \<open>Data model of src/App.tsx\<close>

text \<open>
  The category literals of the source are Japanese strings; they are modelled as the
  constructors of an enumeration: \<open>Personal\<close> (kojin), \<open>School\<close> (gakkou),
  \<open>Work\<close> (shigoto), \<open>Other\<close> (sonota). Every JavaScript \<open>number\<close> that holds
  an identifier (\<open>Date.now()\<close>) is an \<open>int\<close>. A coordinate, radius or distance is
  the \<open>real\<close> value of a finite double; the arithmetic on doubles is not exact and is
  an input of the model (the record \<open>js_math\<close> below). A string is the list of its
  UTF-16 code units.
\<close>

type_synonym js_string = "nat list"

datatype Category = Personal | School | Work | Other

datatype LocationType = type_home | type_school | type_work

datatype LocationStatus = home | school | work | outside

datatype PageType = main | add_task | locations | account | settings

text \<open>The optional fields \<open>showDetail?\<close> and \<open>completed?\<close> are \<open>None\<close> when absent.\<close>

record Todo =
  todo_id :: int
  title :: js_string
  detail :: js_string
  category :: Category
  createdAt :: js_string
  showDetail :: "bool option"
  completed :: "bool option"

record Location =
  loc_id :: int
  loc_name :: js_string
  latitude :: real
  longitude :: real
  radius :: real
  loc_type :: LocationType

text \<open>
  The persistent store (\<open>localStorage\<close>), one field per key that the program uses; an
  absent key is \<open>None\<close>. The keys \<open>todos\<close>, \<open>locations\<close> and \<open>biometricEnabled\<close>
  hold JSON text in the program; the model stores the value that the text denotes
  (\<open>JSON.parse (JSON.stringify v) = v\<close> for these values).
\<close>

record local_storage =
  ls_todos :: "Todo list option"
  ls_biometricEnabled :: "bool option"
  ls_locations :: "Location list option"
  ls_webauthn_credential_id :: "js_string option"
  ls_webauthn_raw_id :: "js_string option"

text \<open>The state cells of the component (\<open>useState\<close>) together with the store.\<close>

record app_state =
  currentPage :: PageType
  todos :: "Todo list"
  inputTitle :: js_string
  inputDetail :: js_string
  inputCategory :: Category
  editingTodo :: "int option"
  editTitle :: js_string
  editDetail :: js_string
  editCategory :: Category
  privateMode :: bool
  biometricEnabled :: bool
  authenticating :: bool
  registeredLocations :: "Location list"
  currentLocation :: "(real \<times> real) option"
  locationStatus :: LocationStatus
  newLocationName :: js_string
  newLocationType :: LocationType
  newLocationRadius :: real
  gpsAccuracy :: "real option"
  storage :: local_storage

section \<open>JavaScript helpers\<close>

text \<open>A string literal of ASCII characters, as code units.\<close>

definition js :: "string \<Rightarrow> js_string" where
  "js s = map of_char s"

text \<open>Truthiness of an optional boolean, of a \<open>string | null\<close> and of a \<open>number | null\<close>.\<close>

definition truthy_bool :: "bool option \<Rightarrow> bool" where
  "truthy_bool b = (case b of None \<Rightarrow> False | Some v \<Rightarrow> v)"

definition truthy_str :: "js_string option \<Rightarrow> bool" where
  "truthy_str v = (case v of None \<Rightarrow> False | Some x \<Rightarrow> x \<noteq> [])"

definition truthy_num :: "int option \<Rightarrow> bool" where
  "truthy_num v = (case v of None \<Rightarrow> False | Some n \<Rightarrow> n \<noteq> 0)"

text \<open>
  \<open>String.prototype.trim\<close> strips the white space and the line terminators of
  ECMAScript: tab, LF, VT, FF, CR, space, no-break space, the space separators
  U+1680, U+2000 to U+200A, U+202F, U+205F, U+3000, the separators U+2028 and U+2029,
  and the byte order mark U+FEFF.
\<close>

definition js_whitespace :: "nat \<Rightarrow> bool" where
  "js_whitespace c =
     (c \<in> set [0x09, 0x0A, 0x0B, 0x0C, 0x0D, 0x20, 0xA0, 0x1680, 0x2028, 0x2029,
                0x202F, 0x205F, 0x3000, 0xFEFF]
      \<or> (0x2000 \<le> c \<and> c \<le> 0x200A))"

definition trim :: "js_string \<Rightarrow> js_string" where
  "trim s = rev (dropWhile js_whitespace (rev (dropWhile js_whitespace s)))"

text \<open>
  \<open>atob\<close> (forgiving base64 decoding) succeeds on a string when, after the ASCII white
  space is removed and, for a length divisible by 4, one or two closing \<open>=\<close> are
  removed, the length is not 1 modulo 4 and every code unit is alphanumeric, \<open>+\<close> or
  \<open>/\<close>; otherwise it throws.
\<close>

definition ascii_whitespace :: "nat \<Rightarrow> bool" where
  "ascii_whitespace c = (c \<in> set [0x09, 0x0A, 0x0C, 0x0D, 0x20])"

definition base64_char :: "nat \<Rightarrow> bool" where
  "base64_char c =
     ((65 \<le> c \<and> c \<le> 90) \<or> (97 \<le> c \<and> c \<le> 122) \<or> (48 \<le> c \<and> c \<le> 57)
      \<or> c = 43 \<or> c = 47)"

definition strip_padding :: "js_string \<Rightarrow> js_string" where
  "strip_padding s =
     (if length s mod 4 = 0 then
        (case rev s of
           a # b # rest \<Rightarrow>
             if a = 61 then (if b = 61 then rev rest else rev (b # rest)) else s
         | _ \<Rightarrow> s)
      else s)"

definition atob_ok :: "js_string \<Rightarrow> bool" where
  "atob_ok s =
     (let d = strip_padding (filter (\<lambda>c. \<not> ascii_whitespace c) s)
      in length d mod 4 \<noteq> 1 \<and> list_all base64_char d)"

text \<open>
  The arithmetic of the platform. \<open>fl\<close> rounds the exact result of an operation to
  the double that the operation returns, and is \<open>None\<close> when that double is not finite;
  \<open>Math.sin\<close>, \<open>Math.cos\<close> and \<open>Math.atan2\<close> are approximations that the
  engine chooses, \<open>Math.PI\<close> is its constant. \<open>Math.sqrt\<close> is NaN below zero and the
  rounded root otherwise.
\<close>

record js_math =
  math_PI :: real
  math_sin :: "real \<Rightarrow> real"
  math_cos :: "real \<Rightarrow> real"
  math_atan2 :: "real \<Rightarrow> real \<Rightarrow> real"
  fl :: "real \<Rightarrow> real option"

definition math_sqrt :: "js_math \<Rightarrow> real \<Rightarrow> real option" where
  "math_sqrt m x = (if x < 0 then None else fl m (sqrt x))"

text \<open>
  The exact two-argument arctangent, by quadrant; it is the \<open>Math.atan2\<close> of the
  platform without rounding that the concrete inputs below use.
\<close>

definition atan2 :: "real \<Rightarrow> real \<Rightarrow> real" where
  "atan2 y x =
     (if 0 < x then arctan (y / x)
      else if x < 0 then (if 0 \<le> y then arctan (y / x) + pi else arctan (y / x) - pi)
      else if 0 < y then pi / 2
      else if y < 0 then - (pi / 2)
      else 0)"

section \<open>GeoMath: calculateDistance\<close>

text \<open>
  One binding per operation of the source, in its order of evaluation. A value that is
  not finite can only end in NaN here (it reaches \<open>Math.sin\<close>, \<open>Math.cos\<close>,
  \<open>Math.sqrt\<close> or \<open>Math.atan2\<close>), so the result \<open>None\<close> is the result NaN.
\<close>

definition haversine_a :: "js_math \<Rightarrow> real \<Rightarrow> real \<Rightarrow> real \<Rightarrow> real \<Rightarrow> real option" where
  "haversine_a m lat1 lon1 lat2 lon2 =
     do {
       t1 \<leftarrow> fl m (lat1 * math_PI m);
       phi1 \<leftarrow> fl m (t1 / 180);
       t2 \<leftarrow> fl m (lat2 * math_PI m);
       phi2 \<leftarrow> fl m (t2 / 180);
       u1 \<leftarrow> fl m (lat2 - lat1);
       u2 \<leftarrow> fl m (u1 * math_PI m);
       dphi \<leftarrow> fl m (u2 / 180);
       v1 \<leftarrow> fl m (lon2 - lon1);
       v2 \<leftarrow> fl m (v1 * math_PI m);
       dlam \<leftarrow> fl m (v2 / 180);
       hp \<leftarrow> fl m (dphi / 2);
       sp \<leftarrow> fl m (math_sin m hp * math_sin m hp);
       cc \<leftarrow> fl m (math_cos m phi1 * math_cos m phi2);
       hl \<leftarrow> fl m (dlam / 2);
       c3 \<leftarrow> fl m (cc * math_sin m hl);
       c4 \<leftarrow> fl m (c3 * math_sin m hl);
       fl m (sp + c4)
     }"

definition calculateDistance :: "js_math \<Rightarrow> real \<Rightarrow> real \<Rightarrow> real \<Rightarrow> real \<Rightarrow> real option" where
  "calculateDistance m lat1 lon1 lat2 lon2 =
     do {
       a \<leftarrow> haversine_a m lat1 lon1 lat2 lon2;
       y \<leftarrow> math_sqrt m a;
       d \<leftarrow> fl m (1 - a);
       x \<leftarrow> math_sqrt m d;
       c \<leftarrow> fl m (2 * math_atan2 m y x);
       fl m (6371000 * c)
     }"

section \<open>State setters and the persistence effects\<close>

text \<open>
  \<open>setTodos\<close> and \<open>setRegisteredLocations\<close> are always called with a fresh array, so
  the effect that depends on the cell runs after each call; the effect writes the store
  only when the array is not empty. \<open>setBiometricEnabled\<close> re-renders, and so runs its
  effect, only when the boolean changes.
\<close>

definition setTodos :: "Todo list \<Rightarrow> app_state \<Rightarrow> app_state" where
  "setTodos ts s =
     s\<lparr>todos := ts,
       storage := (if length ts > 0 then (storage s)\<lparr>ls_todos := Some ts\<rparr> else storage s)\<rparr>"

definition setRegisteredLocations :: "Location list \<Rightarrow> app_state \<Rightarrow> app_state" where
  "setRegisteredLocations ls s =
     s\<lparr>registeredLocations := ls,
       storage := (if length ls > 0 then (storage s)\<lparr>ls_locations := Some ls\<rparr> else storage s)\<rparr>"

definition setBiometricEnabled :: "bool \<Rightarrow> app_state \<Rightarrow> app_state" where
  "setBiometricEnabled b s =
     (if biometricEnabled s = b then s
      else s\<lparr>biometricEnabled := b,
             storage := (storage s)\<lparr>ls_biometricEnabled := Some b\<rparr>\<rparr>)"

section \<open>Load on init\<close>

text \<open>The default zone; its display name is cut to the ASCII prefix.\<close>

definition jaist :: "int \<Rightarrow> Location" where
  "jaist now =
     \<lparr>loc_id = now, loc_name = js ''JAIST'', latitude = 36.4507, longitude = 136.5933,
      radius = 200, loc_type = type_school\<rparr>"

definition initial_cells :: "local_storage \<Rightarrow> app_state" where
  "initial_cells ls =
     \<lparr>currentPage = main, todos = [], inputTitle = [], inputDetail = [],
      inputCategory = Other, editingTodo = None, editTitle = [], editDetail = [],
      editCategory = Other, privateMode = False, biometricEnabled = False,
      authenticating = False, registeredLocations = [], currentLocation = None,
      locationStatus = outside, newLocationName = [], newLocationType = type_home,
      newLocationRadius = 150, gpsAccuracy = None, storage = ls\<rparr>"

text \<open>
  The mount effects: the three keys are read, the cells are set from the keys that are
  present, a missing \<open>locations\<close> key is seeded with the default school zone (whose id is
  the clock value \<open>now\<close>), and the \<open>biometricEnabled\<close> effect writes the cell back.
\<close>

definition init :: "int \<Rightarrow> local_storage \<Rightarrow> app_state" where
  "init now ls =
     (let s0 = initial_cells ls;
          s1 = (case ls_todos ls of None \<Rightarrow> s0 | Some ts \<Rightarrow> setTodos ts s0);
          s2 = (case ls_biometricEnabled ls of None \<Rightarrow> s1
                | Some b \<Rightarrow> s1\<lparr>biometricEnabled := b\<rparr>);
          s3 = (case ls_locations ls of
                  Some locs \<Rightarrow> setRegisteredLocations locs s2
                | None \<Rightarrow> setRegisteredLocations [jaist now] s2)
      in s3\<lparr>storage := (storage s3)\<lparr>ls_biometricEnabled := Some (biometricEnabled s3)\<rparr>\<rparr>)"

section \<open>AuthGate: performBiometricAuth\<close>

text \<open>
  The \<open>action\<close> argument is a display string in the source; only its equality with the
  set-up label is tested, so the labels are an enumeration. The replies of the platform
  (\<open>navigator.credentials.create/get\<close>: a credential, \<open>null\<close>, or a rejection) and the
  answers to the three \<open>window.confirm\<close> dialogs are the inputs of a run.
\<close>

datatype auth_action = SetupBiometric | EnablePrivateMode | RegisterPlace | DeletePlace | Authenticate

datatype 'a platform_reply = Resolved 'a | ResolvedNull | Rejected

record auth_env =
  webauthn_available :: bool
  create_reply :: "(js_string \<times> js_string) platform_reply"
  get_reply :: "unit platform_reply"
  confirm_fallback :: bool
  confirm_use_simple :: bool
  confirm_continue :: bool

text \<open>The return statement that a run leaves through.\<close>

datatype auth_route = ViaWebAuthn | ViaFallbackConfirm | ViaErrorFallback

definition auth_fallback :: "auth_env \<Rightarrow> local_storage \<Rightarrow> auth_route \<times> bool \<times> local_storage" where
  "auth_fallback env ls = (ViaFallbackConfirm, confirm_fallback env, ls)"

text \<open>
  The body of the \<open>try\<close> block; \<open>Inl ()\<close> is a thrown exception: a rejection by the
  platform, a missing raw id, or a stored raw id that \<open>atob\<close> cannot decode. A granted
  \<open>create\<close> request carries the credential id and the \<open>btoa\<close> text of the raw id.
\<close>

definition auth_try ::
  "auth_env \<Rightarrow> auth_action \<Rightarrow> local_storage \<Rightarrow> unit + (auth_route \<times> bool \<times> local_storage)" where
  "auth_try env action ls =
     (if webauthn_available env then
        (let credentialId = ls_webauthn_credential_id ls in
         if action = SetupBiometric \<and> \<not> truthy_str credentialId then
           (case create_reply env of
              Resolved cred \<Rightarrow>
                Inr (ViaWebAuthn, True,
                     ls\<lparr>ls_webauthn_credential_id := Some (fst cred),
                        ls_webauthn_raw_id := Some (snd cred)\<rparr>)
            | ResolvedNull \<Rightarrow> Inr (auth_fallback env ls)
            | Rejected \<Rightarrow> Inl ())
         else if truthy_str credentialId then
           (case ls_webauthn_raw_id ls of
              None \<Rightarrow> Inl ()
            | Some rawId \<Rightarrow>
                if rawId = [] then Inl ()
                else if \<not> atob_ok rawId then Inl ()
                else (case get_reply env of
                        Resolved assertion \<Rightarrow> Inr (ViaWebAuthn, True, ls)
                      | ResolvedNull \<Rightarrow> Inr (auth_fallback env ls)
                      | Rejected \<Rightarrow> Inl ()))
         else Inr (auth_fallback env ls))
      else Inr (auth_fallback env ls))"

text \<open>The \<open>catch\<close> block turns every exception into the two-dialog fallback.\<close>

definition auth_run ::
  "auth_env \<Rightarrow> auth_action \<Rightarrow> local_storage \<Rightarrow> auth_route \<times> bool \<times> local_storage" where
  "auth_run env action ls =
     (case auth_try env action ls of
        Inr r \<Rightarrow> r
      | Inl e \<Rightarrow>
          (ViaErrorFallback,
           (if confirm_use_simple env then confirm_continue env else False), ls))"

text \<open>
  The boolean that the caller receives, and the state after the \<open>finally\<close> block
  (\<open>authenticating\<close> is set on entry and cleared on exit).
\<close>

definition performBiometricAuth :: "auth_env \<Rightarrow> auth_action \<Rightarrow> app_state \<Rightarrow> bool \<times> app_state" where
  "performBiometricAuth env action s =
     (let r = auth_run env action (storage s)
      in (fst (snd r), s\<lparr>authenticating := False, storage := snd (snd r)\<rparr>))"

definition enableBiometric :: "auth_env \<Rightarrow> app_state \<Rightarrow> app_state" where
  "enableBiometric env s =
     (let r = performBiometricAuth env SetupBiometric s
      in if fst r then setBiometricEnabled True (snd r) else snd r)"

definition togglePrivateMode :: "auth_env \<Rightarrow> app_state \<Rightarrow> app_state" where
  "togglePrivateMode env s =
     (if \<not> privateMode s then
        (if biometricEnabled s then
           (let r = performBiometricAuth env EnablePrivateMode s
            in if fst r then (snd r)\<lparr>privateMode := True\<rparr> else snd r)
         else s\<lparr>currentPage := settings\<rparr>)
      else s\<lparr>privateMode := False\<rparr>)"

text \<open>The click handler of the reset button on the settings page.\<close>

definition resetCredential :: "bool \<Rightarrow> app_state \<Rightarrow> app_state" where
  "resetCredential confirmed s =
     (if confirmed then
        setBiometricEnabled False
          (s\<lparr>storage := (storage s)\<lparr>ls_webauthn_credential_id := None,
                                     ls_webauthn_raw_id := None\<rparr>\<rparr>)
      else s)"

section \<open>TaskStore\<close>

definition toggleComplete :: "int \<Rightarrow> app_state \<Rightarrow> app_state" where
  "toggleComplete i s =
     setTodos (map (\<lambda>todo. if todo_id todo = i
                            then todo\<lparr>completed := Some (\<not> truthy_bool (completed todo))\<rparr>
                            else todo) (todos s)) s"

definition addTodo :: "int \<Rightarrow> js_string \<Rightarrow> app_state \<Rightarrow> app_state" where
  "addTodo now stamp s =
     (if trim (inputTitle s) \<noteq> [] then
        (let newTodo = \<lparr>todo_id = now, title = inputTitle s, detail = inputDetail s,
                        category = inputCategory s, createdAt = stamp,
                        showDetail = Some False, completed = Some False\<rparr>
         in (setTodos (todos s @ [newTodo]) s)
              \<lparr>inputTitle := [], inputDetail := [], currentPage := main\<rparr>)
      else s)"

definition startEdit :: "Todo \<Rightarrow> app_state \<Rightarrow> app_state" where
  "startEdit todo s =
     s\<lparr>editingTodo := Some (todo_id todo), editTitle := title todo,
       editDetail := detail todo, editCategory := category todo\<rparr>"

definition saveEdit :: "app_state \<Rightarrow> app_state" where
  "saveEdit s =
     (if trim (editTitle s) \<noteq> [] \<and> truthy_num (editingTodo s) then
        (setTodos (map (\<lambda>todo. if Some (todo_id todo) = editingTodo s
                               then todo\<lparr>title := editTitle s, detail := editDetail s,
                                         category := editCategory s\<rparr>
                               else todo) (todos s)) s)
          \<lparr>editingTodo := None, editTitle := [], editDetail := []\<rparr>
      else s)"

definition deleteTodo :: "bool \<Rightarrow> int \<Rightarrow> app_state \<Rightarrow> app_state" where
  "deleteTodo confirmed i s =
     (if confirmed then setTodos (filter (\<lambda>todo. todo_id todo \<noteq> i) (todos s)) s else s)"

definition toggleDetail :: "int \<Rightarrow> app_state \<Rightarrow> app_state" where
  "toggleDetail i s =
     setTodos (map (\<lambda>todo. if todo_id todo = i
                            then todo\<lparr>showDetail := Some (\<not> truthy_bool (showDetail todo))\<rparr>
                            else todo) (todos s)) s"

definition deleteAllCompleted :: "bool \<Rightarrow> app_state \<Rightarrow> app_state" where
  "deleteAllCompleted confirmed s =
     (let completedCount = length (filter (\<lambda>todo. truthy_bool (completed todo)) (todos s))
      in if completedCount = 0 then s
         else if confirmed
           then setTodos (filter (\<lambda>todo. \<not> truthy_bool (completed todo)) (todos s)) s
           else s)"

section \<open>VisibilityPolicy\<close>

text \<open>
  \<open>isTaskVisible\<close> reads the cells \<open>privateMode\<close> and \<open>locationStatus\<close>; they are its
  first two arguments. The \<open>default\<close> branch of the switch is outside the type
  \<open>LocationStatus\<close>.
\<close>

definition isTaskVisible :: "bool \<Rightarrow> LocationStatus \<Rightarrow> Todo \<Rightarrow> bool" where
  "isTaskVisible pm status todo =
     (if pm then True
      else (case status of
              home \<Rightarrow> True
            | school \<Rightarrow> category todo = School \<or> category todo = Other
            | work \<Rightarrow> category todo = Work \<or> category todo = Other
            | outside \<Rightarrow> category todo = Other))"

text \<open>The \<open>forEach\<close> loop over the task list, threading the \<open>counts\<close> object.\<close>

fun count_hidden :: "bool \<Rightarrow> LocationStatus \<Rightarrow> (Category \<Rightarrow> nat) \<Rightarrow> Todo list \<Rightarrow> (Category \<Rightarrow> nat)" where
  "count_hidden pm status counts [] = counts"
| "count_hidden pm status counts (todo # rest) =
     count_hidden pm status
       (if \<not> isTaskVisible pm status todo
        then counts(category todo := counts (category todo) + 1)
        else counts) rest"

definition getHiddenTasksCount :: "bool \<Rightarrow> LocationStatus \<Rightarrow> Todo list \<Rightarrow> (Category \<Rightarrow> nat)" where
  "getHiddenTasksCount pm status ts = count_hidden pm status (\<lambda>c. 0) ts"

section \<open>LocationResolver and GeofenceStore\<close>

definition as_LocationStatus :: "LocationType \<Rightarrow> LocationStatus" where
  "as_LocationStatus t = (case t of type_home \<Rightarrow> home | type_school \<Rightarrow> school | type_work \<Rightarrow> work)"

text \<open>The test \<open>distance <= loc.radius\<close>; a comparison with NaN is false.\<close>

definition in_zone :: "js_math \<Rightarrow> real \<Rightarrow> real \<Rightarrow> Location \<Rightarrow> bool" where
  "in_zone m lat lon loc =
     (case calculateDistance m lat lon (latitude loc) (longitude loc) of
        None \<Rightarrow> False
      | Some distance \<Rightarrow> distance \<le> radius loc)"

text \<open>The \<open>for\<close> loop of \<open>handlePositionUpdate\<close>, leaving at the first zone that matches.\<close>

fun resolve_status :: "js_math \<Rightarrow> real \<Rightarrow> real \<Rightarrow> Location list \<Rightarrow> LocationStatus" where
  "resolve_status m lat lon [] = outside"
| "resolve_status m lat lon (loc # rest) =
     (if in_zone m lat lon loc then as_LocationStatus (loc_type loc)
      else resolve_status m lat lon rest)"

definition handlePositionUpdate :: "js_math \<Rightarrow> real \<Rightarrow> real \<Rightarrow> real \<Rightarrow> app_state \<Rightarrow> app_state" where
  "handlePositionUpdate m lat lon accuracy s =
     s\<lparr>currentLocation := Some (lat, lon), gpsAccuracy := Some accuracy,
       locationStatus := resolve_status m lat lon (registeredLocations s)\<rparr>"

text \<open>
  The two guarded zone mutations. After the \<open>await\<close> the handler still reads the cells
  of the render in which it was created (\<open>s\<close>); the authentication step changes only
  \<open>authenticating\<close> and the store.
\<close>

definition registerCurrentLocation :: "auth_env \<Rightarrow> int \<Rightarrow> app_state \<Rightarrow> app_state" where
  "registerCurrentLocation env now s =
     (case currentLocation s of
        None \<Rightarrow> s
      | Some cur \<Rightarrow>
          if newLocationName s = [] then s
          else if biometricEnabled s then
            (let r = performBiometricAuth env RegisterPlace s
             in if \<not> fst r then snd r
                else (let newLocation =
                            \<lparr>loc_id = now, loc_name = newLocationName s,
                             latitude = fst cur, longitude = snd cur,
                             radius = newLocationRadius s, loc_type = newLocationType s\<rparr>
                      in (setRegisteredLocations (registeredLocations s @ [newLocation]) (snd r))
                           \<lparr>newLocationName := [], newLocationRadius := 150\<rparr>))
          else s\<lparr>currentPage := settings\<rparr>)"

definition deleteLocation :: "auth_env \<Rightarrow> int \<Rightarrow> app_state \<Rightarrow> app_state" where
  "deleteLocation env i s =
     (if biometricEnabled s then
        (let r = performBiometricAuth env DeletePlace s
         in if \<not> fst r then snd r
            else setRegisteredLocations
                   (filter (\<lambda>loc. loc_id loc \<noteq> i) (registeredLocations s)) (snd r))
      else s\<lparr>currentPage := settings\<rparr>)"

section \<open>Events\<close>

text \<open>
  Every state change of the component is one event, processed to completion before the
  next. The set-up and the reset buttons exist only on the settings page, the first
  while \<open>biometricEnabled\<close> is false, the second while it is true and a credential id is
  stored; a click that the page does not offer changes nothing.
\<close>

datatype event =
    Navigate PageType
  | SetInputTitle js_string
  | SetInputDetail js_string
  | SetCategory Category
  | SetEditTitle js_string
  | SetEditDetail js_string
  | SetEditCategory Category
  | CancelEdit
  | SetNewLocationName js_string
  | SetNewLocationType LocationType
  | SetNewLocationRadius real
  | ClickEnableBiometric auth_env
  | ClickTogglePrivateMode auth_env
  | ClickReset bool
  | ClickToggleComplete int
  | ClickAddTodo int js_string
  | ClickStartEdit Todo
  | ClickSaveEdit
  | ClickDeleteTodo bool int
  | ClickToggleDetail int
  | ClickDeleteAllCompleted bool
  | PositionUpdate real real real
  | ClickRegisterCurrentLocation auth_env int
  | ClickDeleteLocation auth_env int

fun step :: "js_math \<Rightarrow> event \<Rightarrow> app_state \<Rightarrow> app_state" where
  "step m (Navigate p) s = s\<lparr>currentPage := p\<rparr>"
| "step m (SetInputTitle v) s = s\<lparr>inputTitle := v\<rparr>"
| "step m (SetInputDetail v) s = s\<lparr>inputDetail := v\<rparr>"
| "step m (SetCategory c) s = s\<lparr>inputCategory := c\<rparr>"
| "step m (SetEditTitle v) s = s\<lparr>editTitle := v\<rparr>"
| "step m (SetEditDetail v) s = s\<lparr>editDetail := v\<rparr>"
| "step m (SetEditCategory c) s = s\<lparr>editCategory := c\<rparr>"
| "step m CancelEdit s = s\<lparr>editingTodo := None\<rparr>"
| "step m (SetNewLocationName v) s = s\<lparr>newLocationName := v\<rparr>"
| "step m (SetNewLocationType t) s = s\<lparr>newLocationType := t\<rparr>"
| "step m (SetNewLocationRadius r) s = s\<lparr>newLocationRadius := r\<rparr>"
| "step m (ClickEnableBiometric env) s =
     (if currentPage s = settings \<and> \<not> biometricEnabled s then enableBiometric env s else s)"
| "step m (ClickTogglePrivateMode env) s = togglePrivateMode env s"
| "step m (ClickReset confirmed) s =
     (if currentPage s = settings \<and> biometricEnabled s
         \<and> truthy_str (ls_webauthn_credential_id (storage s))
      then resetCredential confirmed s else s)"
| "step m (ClickToggleComplete i) s = toggleComplete i s"
| "step m (ClickAddTodo now stamp) s = addTodo now stamp s"
| "step m (ClickStartEdit todo) s = startEdit todo s"
| "step m ClickSaveEdit s = saveEdit s"
| "step m (ClickDeleteTodo confirmed i) s = deleteTodo confirmed i s"
| "step m (ClickToggleDetail i) s = toggleDetail i s"
| "step m (ClickDeleteAllCompleted confirmed) s = deleteAllCompleted confirmed s"
| "step m (PositionUpdate lat lon accuracy) s = handlePositionUpdate m lat lon accuracy s"
| "step m (ClickRegisterCurrentLocation env now) s = registerCurrentLocation env now s"
| "step m (ClickDeleteLocation env i) s = deleteLocation env i s"

fun run :: "js_math \<Rightarrow> event list \<Rightarrow> app_state \<Rightarrow> app_state" where
  "run m [] s = s"
| "run m (e # es) s = run m es (step m e s)"

section \<open>Concrete inputs\<close>

text \<open>A platform whose arithmetic has no rounding error.\<close>

definition exact_math :: js_math where
  "exact_math = \<lparr>math_PI = pi, math_sin = sin, math_cos = cos, math_atan2 = atan2,
                  fl = Some\<rparr>"

text \<open>
  Three zones seen from the coordinate (0, 0): one on the opposite meridian, half the
  equator away, and two centred on the coordinate itself.
\<close>

definition zone_far :: Location where
  "zone_far = \<lparr>loc_id = 1, loc_name = js ''far'', latitude = 0, longitude = 180,
                radius = 200, loc_type = type_work\<rparr>"

definition zone_school :: Location where
  "zone_school = \<lparr>loc_id = 2, loc_name = js ''campus'', latitude = 0, longitude = 0,
                   radius = 200, loc_type = type_school\<rparr>"

definition zone_home :: Location where
  "zone_home = \<lparr>loc_id = 3, loc_name = js ''flat'', latitude = 0, longitude = 0,
                 radius = 150, loc_type = type_home\<rparr>"

text \<open>An empty store; two tasks, the first written before \<open>completed\<close> existed.\<close>

definition fresh_storage :: local_storage where
  "fresh_storage = \<lparr>ls_todos = None, ls_biometricEnabled = None, ls_locations = None,
                     ls_webauthn_credential_id = None, ls_webauthn_raw_id = None\<rparr>"

definition todo_legacy :: Todo where
  "todo_legacy = \<lparr>todo_id = 1, title = js ''report'', detail = [], category = Work,
                   createdAt = js ''2025-01-01T00:00:00.000Z'', showDetail = None,
                   completed = None\<rparr>"

definition todo_milk :: Todo where
  "todo_milk = \<lparr>todo_id = 2, title = js ''milk'', detail = [], category = Other,
                 createdAt = js ''2025-01-02T00:00:00.000Z'', showDetail = Some False,
                 completed = Some False\<rparr>"

text \<open>
  Three runs of the authentication step: the platform grants the request; the platform
  is absent and the user accepts the fallback dialog; the platform is absent and the
  user declines.
\<close>

definition env_strong :: auth_env where
  "env_strong = \<lparr>webauthn_available = True,
                  create_reply = Resolved (js ''cred-1'', js ''Y3JlZC0x''),
                  get_reply = Resolved (), confirm_fallback = False,
                  confirm_use_simple = False, confirm_continue = False\<rparr>"

definition env_weak :: auth_env where
  "env_weak = \<lparr>webauthn_available = False, create_reply = Rejected,
                get_reply = Rejected, confirm_fallback = True,
                confirm_use_simple = False, confirm_continue = False\<rparr>"

definition env_denied :: auth_env where
  "env_denied = \<lparr>webauthn_available = False, create_reply = Rejected,
                  get_reply = Rejected, confirm_fallback = False,
                  confirm_use_simple = False, confirm_continue = False\<rparr>"

text \<open>A session that starts from a store holding the two tasks and the set-up flag.\<close>

definition stored_two :: local_storage where
  "stored_two = fresh_storage\<lparr>ls_todos := Some [todo_legacy, todo_milk],
                              ls_biometricEnabled := Some True\<rparr>"

definition st_loaded :: app_state where
  "st_loaded = init 1000 stored_two"

definition st_located :: app_state where
  "st_located = run exact_math [PositionUpdate 36.4507 136.5933 10, SetNewLocationName (js ''lab'')] st_loaded"

definition stored_cred :: local_storage where
  "stored_cred = fresh_storage\<lparr>ls_webauthn_credential_id := Some (js ''cred-1''),
                               ls_webauthn_raw_id := Some (js ''Y3JlZC0x'')\<rparr>"

text \<open>The platform rejects the request and the user accepts both fallback dialogs.\<close>

definition env_rejected_accept :: auth_env where
  "env_rejected_accept = \<lparr>webauthn_available = True, create_reply = Rejected,
                           get_reply = Rejected, confirm_fallback = False,
                           confirm_use_simple = True, confirm_continue = True\<rparr>"

text \<open>A first session that adds one task and deletes it again.\<close>

definition state_add_delete :: app_state where
  "state_add_delete =
     run exact_math [SetInputTitle (js ''milk''), ClickAddTodo 2 (js ''2025-01-02T00:00:00.000Z''),
          ClickDeleteTodo True 2] (init 1000 fresh_storage)"


section \<open>Observations\<close>

text \<open>
  What a guarded operation must leave alone: the task store, the zone store (each in
  memory and under its key) and the private-mode flag.
\<close>

definition same_stores :: "app_state \<Rightarrow> app_state \<Rightarrow> bool" where
  "same_stores s s' =
     (todos s' = todos s \<and> registeredLocations s' = registeredLocations s
      \<and> privateMode s' = privateMode s
      \<and> ls_todos (storage s') = ls_todos (storage s)
      \<and> ls_locations (storage s') = ls_locations (storage s))"

text \<open>Reloading (a new mount on the current store) gives the task list in memory.\<close>

definition reload_agrees :: "int \<Rightarrow> app_state \<Rightarrow> bool" where
  "reload_agrees now s = (todos (init now (storage s)) = todos s)"

section \<open>VisibilityPolicy: the truth table\<close>

text \<open>
  C1. For every task, location state and private-mode flag, \<open>isTaskVisible\<close> is true
  when private mode is on; otherwise it is true at home for every category, at school
  exactly for the categories School and Other, at work exactly for Work and Other, and
  outside exactly for Other.
\<close>

theorem isTaskVisible_truth_table:
  "isTaskVisible True status todo = True
   \<and> isTaskVisible False home todo = True
   \<and> isTaskVisible False school todo = (category todo = School \<or> category todo = Other)
   \<and> isTaskVisible False work todo = (category todo = Work \<or> category todo = Other)
   \<and> isTaskVisible False outside todo = (category todo = Other)"
  by (simp add: isTaskVisible_def)

section \<open>Hidden counts\<close>

lemma count_hidden_eq:
  "count_hidden pm st counts ts c =
     counts c + length (filter (\<lambda>t. category t = c \<and> \<not> isTaskVisible pm st t) ts)"
  by (induction ts arbitrary: counts) auto

lemma hidden_by_category_total:
  "length (filter (\<lambda>t. category t = Personal \<and> \<not> P t) ts)
   + length (filter (\<lambda>t. category t = School \<and> \<not> P t) ts)
   + length (filter (\<lambda>t. category t = Work \<and> \<not> P t) ts)
   + length (filter (\<lambda>t. category t = Other \<and> \<not> P t) ts)
   = length ts - length (filter P ts)"
proof (induction ts)
  case Nil
  then show ?case by simp
next
  case (Cons t ts)
  have le: "length (filter P ts) \<le> length ts" by simp
  show ?case
  proof (cases "P t")
    case True
    with Cons show ?thesis by simp
  next
    case False
    with Cons le show ?thesis by (cases "category t") (simp_all add: Suc_diff_le)
  qed
qed

lemma getHiddenTasksCount_category:
  "getHiddenTasksCount pm st ts c =
     length (filter (\<lambda>t. category t = c \<and> \<not> isTaskVisible pm st t) ts)"
  by (simp add: getHiddenTasksCount_def count_hidden_eq)

lemma getHiddenTasksCount_sum:
  "getHiddenTasksCount pm st ts Personal + getHiddenTasksCount pm st ts School
     + getHiddenTasksCount pm st ts Work + getHiddenTasksCount pm st ts Other
   = length ts - length (filter (isTaskVisible pm st) ts)"
  by (simp only: getHiddenTasksCount_category hidden_by_category_total)

text \<open>
  C7. For every task list, location state and private-mode flag, \<open>getHiddenTasksCount\<close>
  maps each category to the number of tasks of that category that are not visible; its
  four values add up to the number of tasks minus the number of visible tasks; outside
  with private mode off they add up to the number of tasks minus the number of tasks of
  category Other.
\<close>

theorem getHiddenTasksCount_counts:
  "getHiddenTasksCount pm st ts c =
     length (filter (\<lambda>t. category t = c \<and> \<not> isTaskVisible pm st t) ts)
   \<and> getHiddenTasksCount pm st ts Personal + getHiddenTasksCount pm st ts School
       + getHiddenTasksCount pm st ts Work + getHiddenTasksCount pm st ts Other
     = length ts - length (filter (isTaskVisible pm st) ts)
   \<and> getHiddenTasksCount False outside ts Personal + getHiddenTasksCount False outside ts School
       + getHiddenTasksCount False outside ts Work + getHiddenTasksCount False outside ts Other
     = length ts - length (filter (\<lambda>t. category t = Other) ts)"
proof -
  have "filter (isTaskVisible False outside) ts = filter (\<lambda>t. category t = Other) ts"
    by (rule filter_cong) (simp_all add: isTaskVisible_def)
  with getHiddenTasksCount_sum [of False outside ts]
  have "getHiddenTasksCount False outside ts Personal + getHiddenTasksCount False outside ts School
       + getHiddenTasksCount False outside ts Work + getHiddenTasksCount False outside ts Other
     = length ts - length (filter (\<lambda>t. category t = Other) ts)"
    by simp
  with getHiddenTasksCount_category [of pm st ts c] getHiddenTasksCount_sum [of pm st ts]
  show ?thesis by simp
qed

section \<open>GeoMath\<close>

text \<open>
  The haversine term is not clamped to \<open>[0, 1]\<close>: when rounding leaves it above 1, the
  second square root is taken of a negative number and the distance is NaN.
\<close>

lemma calculateDistance_nan:
  "haversine_a m lat1 lon1 lat2 lon2 = Some a \<Longrightarrow> fl m (1 - a) = Some d \<Longrightarrow> d < 0 \<Longrightarrow>
   calculateDistance m lat1 lon1 lat2 lon2 = None"
  by (cases "math_sqrt m a") (simp_all add: calculateDistance_def math_sqrt_def)

lemma calculateDistance_exact_same: "calculateDistance exact_math lat lon lat lon = Some 0"
  by (simp add: calculateDistance_def haversine_a_def math_sqrt_def exact_math_def atan2_def)

lemma calculateDistance_exact_far: "calculateDistance exact_math 0 0 0 180 = Some (6371000 * pi)"
  by (simp add: calculateDistance_def haversine_a_def math_sqrt_def exact_math_def atan2_def)

section \<open>LocationResolver\<close>

lemma resolve_status_first:
  "\<forall>p\<in>set pre. \<not> in_zone m lat lon p \<Longrightarrow> in_zone m lat lon z \<Longrightarrow>
   resolve_status m lat lon (pre @ z # post) = as_LocationStatus (loc_type z)"
  by (induction pre) auto

lemma as_LocationStatus_not_outside: "as_LocationStatus t \<noteq> outside"
  by (cases t) (simp_all add: as_LocationStatus_def)

lemma as_LocationStatus_inj: "as_LocationStatus t = as_LocationStatus u \<Longrightarrow> t = u"
  by (cases t; cases u) (simp_all add: as_LocationStatus_def)

lemma resolve_status_outside:
  "resolve_status m lat lon zs = outside \<longleftrightarrow> (\<forall>z\<in>set zs. \<not> in_zone m lat lon z)"
  by (induction zs) (auto simp: as_LocationStatus_not_outside)

lemma in_zone_centre: "in_zone exact_math lat lon loc = (0 \<le> radius loc)"
  if "latitude loc = lat" "longitude loc = lon"
  using that by (simp add: in_zone_def calculateDistance_exact_same)

lemma not_in_zone_far: "in_zone exact_math 0 0 zone_far = False"
proof -
  have "\<not> 6371000 * pi \<le> (200::real)" using pi_ge_two by simp
  then show ?thesis by (simp add: in_zone_def zone_far_def calculateDistance_exact_far)
qed

text \<open>
  C2. On every platform, for every coordinate and every zone list, the resolver returns the kind of the
  first zone in list order that contains the coordinate (no zone before it does), and
  it returns \<open>outside\<close> exactly when no zone of the list contains the coordinate. So
  when two zones of different kinds both contain the coordinate and no zone before them
  does, the result is the kind of the one that comes first, and exchanging the two
  changes the result.
\<close>

theorem resolve_status_first_match:
  "((\<forall>p\<in>set pre. \<not> in_zone m lat lon p) \<and> in_zone m lat lon z
      \<longrightarrow> resolve_status m lat lon (pre @ z # post) = as_LocationStatus (loc_type z))
   \<and> (resolve_status m lat lon zs = outside \<longleftrightarrow> (\<forall>p\<in>set zs. \<not> in_zone m lat lon p))
   \<and> ((\<forall>p\<in>set pre. \<not> in_zone m lat lon p) \<and> in_zone m lat lon z1 \<and> in_zone m lat lon z2
        \<and> loc_type z1 \<noteq> loc_type z2
      \<longrightarrow> resolve_status m lat lon (pre @ z1 # mid @ z2 # post) = as_LocationStatus (loc_type z1)
          \<and> resolve_status m lat lon (pre @ z2 # mid @ z1 # post) = as_LocationStatus (loc_type z2)
          \<and> resolve_status m lat lon (pre @ z1 # mid @ z2 # post)
              \<noteq> resolve_status m lat lon (pre @ z2 # mid @ z1 # post))"
proof (intro conjI impI)
  assume "(\<forall>p\<in>set pre. \<not> in_zone m lat lon p) \<and> in_zone m lat lon z"
  then show "resolve_status m lat lon (pre @ z # post) = as_LocationStatus (loc_type z)"
    by (simp add: resolve_status_first)
next
  show "resolve_status m lat lon zs = outside \<longleftrightarrow> (\<forall>p\<in>set zs. \<not> in_zone m lat lon p)"
    by (rule resolve_status_outside)
next
  assume h: "(\<forall>p\<in>set pre. \<not> in_zone m lat lon p) \<and> in_zone m lat lon z1 \<and> in_zone m lat lon z2
        \<and> loc_type z1 \<noteq> loc_type z2"
  then show one: "resolve_status m lat lon (pre @ z1 # mid @ z2 # post) = as_LocationStatus (loc_type z1)"
    by (simp add: resolve_status_first)
  from h show two: "resolve_status m lat lon (pre @ z2 # mid @ z1 # post) = as_LocationStatus (loc_type z2)"
    by (simp add: resolve_status_first)
  from h as_LocationStatus_inj [of "loc_type z1" "loc_type z2"]
  show "resolve_status m lat lon (pre @ z1 # mid @ z2 # post)
          \<noteq> resolve_status m lat lon (pre @ z2 # mid @ z1 # post)"
    unfolding one two by blast
qed

theorem resolve_status_first_match_witness:
  "in_zone exact_math 0 0 zone_far = False \<and> in_zone exact_math 0 0 zone_school \<and> in_zone exact_math 0 0 zone_home
   \<and> resolve_status exact_math 0 0 [zone_far, zone_school, zone_home] = school
   \<and> resolve_status exact_math 0 0 [zone_far, zone_home, zone_school] = home
   \<and> resolve_status exact_math 0 0 [zone_far] = outside"
proof -
  have sch: "in_zone exact_math 0 0 zone_school"
    by (simp add: in_zone_centre zone_school_def)
  have hm: "in_zone exact_math 0 0 zone_home"
    by (simp add: in_zone_centre zone_home_def)
  have ty: "loc_type zone_school = type_school" "loc_type zone_home = type_home"
    by (simp_all add: zone_school_def zone_home_def)
  from resolve_status_first_match
         [where m = exact_math and lat = 0 and lon = 0 and pre = "[zone_far]" and z = zone_school
            and post = "[]" and zs = "[zone_far]" and ?z1.0 = zone_school
            and mid = "[]" and ?z2.0 = zone_home]
       not_in_zone_far sch hm ty
  show ?thesis by (simp add: as_LocationStatus_def)
qed

section \<open>TaskStore: toggleComplete\<close>

lemma todos_setTodos: "todos (setTodos ts s) = ts"
  by (simp add: setTodos_def)

lemma todos_toggleComplete:
  "todos (toggleComplete i s) =
     map (\<lambda>todo. if todo_id todo = i
                  then todo\<lparr>completed := Some (\<not> truthy_bool (completed todo))\<rparr>
                  else todo) (todos s)"
  by (simp add: toggleComplete_def todos_setTodos)

lemma todos_init: "todos (init now ls) = (case ls_todos ls of None \<Rightarrow> [] | Some ts \<Rightarrow> ts)"
  by (simp add: init_def Let_def initial_cells_def setTodos_def setRegisteredLocations_def
        split: option.splits)

text \<open>
  C10 as stated fails in its last part: a task stored without the optional \<open>completed\<close>
  field is toggled to \<open>true\<close> and then to \<open>false\<close>, not back to absent.
\<close>

theorem toggleComplete_twice_counterexample:
  "todos (toggleComplete 1 (toggleComplete 1
            (init 1000 (fresh_storage\<lparr>ls_todos := Some [todo_legacy]\<rparr>))))
     \<noteq> todos (init 1000 (fresh_storage\<lparr>ls_todos := Some [todo_legacy]\<rparr>))"
  by (simp add: todos_toggleComplete todos_init fresh_storage_def todo_legacy_def
        truthy_bool_def)

text \<open>
  C10, amended. For every task list and every id, \<open>toggleComplete\<close> keeps the length
  and the order of the list, leaves every task with another id unchanged, and changes
  of a task with that id only the \<open>completed\<close> field (id, title, detail, category,
  createdAt and showDetail stay), which becomes the negation of its truthiness.
  Applying it twice restores the original list when every task with that id has its
  \<open>completed\<close> field present.
\<close>

theorem toggleComplete_frame:
  "length (todos (toggleComplete i s)) = length (todos s)
   \<and> (\<forall>k<length (todos s).
        todo_id (todos (toggleComplete i s) ! k) = todo_id (todos s ! k)
        \<and> title (todos (toggleComplete i s) ! k) = title (todos s ! k)
        \<and> detail (todos (toggleComplete i s) ! k) = detail (todos s ! k)
        \<and> category (todos (toggleComplete i s) ! k) = category (todos s ! k)
        \<and> createdAt (todos (toggleComplete i s) ! k) = createdAt (todos s ! k)
        \<and> showDetail (todos (toggleComplete i s) ! k) = showDetail (todos s ! k)
        \<and> (todo_id (todos s ! k) \<noteq> i \<longrightarrow> todos (toggleComplete i s) ! k = todos s ! k)
        \<and> (todo_id (todos s ! k) = i \<longrightarrow>
             todos (toggleComplete i s) ! k
               = (todos s ! k)\<lparr>completed := Some (\<not> truthy_bool (completed (todos s ! k)))\<rparr>))
   \<and> ((\<forall>t\<in>set (todos s). todo_id t = i \<longrightarrow> completed t \<noteq> None)
        \<longrightarrow> todos (toggleComplete i (toggleComplete i s)) = todos s)"
proof (intro conjI impI)
  show "length (todos (toggleComplete i s)) = length (todos s)"
    by (simp add: todos_toggleComplete)
  show "\<forall>k<length (todos s).
        todo_id (todos (toggleComplete i s) ! k) = todo_id (todos s ! k)
        \<and> title (todos (toggleComplete i s) ! k) = title (todos s ! k)
        \<and> detail (todos (toggleComplete i s) ! k) = detail (todos s ! k)
        \<and> category (todos (toggleComplete i s) ! k) = category (todos s ! k)
        \<and> createdAt (todos (toggleComplete i s) ! k) = createdAt (todos s ! k)
        \<and> showDetail (todos (toggleComplete i s) ! k) = showDetail (todos s ! k)
        \<and> (todo_id (todos s ! k) \<noteq> i \<longrightarrow> todos (toggleComplete i s) ! k = todos s ! k)
        \<and> (todo_id (todos s ! k) = i \<longrightarrow>
             todos (toggleComplete i s) ! k
               = (todos s ! k)\<lparr>completed := Some (\<not> truthy_bool (completed (todos s ! k)))\<rparr>)"
    by (simp add: todos_toggleComplete)
  assume h: "\<forall>t\<in>set (todos s). todo_id t = i \<longrightarrow> completed t \<noteq> None"
  have "map ((\<lambda>todo. if todo_id todo = i
                  then todo\<lparr>completed := Some (\<not> truthy_bool (completed todo))\<rparr>
                  else todo) \<circ> (\<lambda>todo. if todo_id todo = i
                  then todo\<lparr>completed := Some (\<not> truthy_bool (completed todo))\<rparr>
                  else todo)) (todos s) = map (\<lambda>t. t) (todos s)"
    using h by (intro map_cong) (auto simp: truthy_bool_def)
  then show "todos (toggleComplete i (toggleComplete i s)) = todos s"
    by (simp add: todos_toggleComplete)
qed

lemma st_loaded_cells:
  "todos st_loaded = [todo_legacy, todo_milk]"
  "registeredLocations st_loaded = [jaist 1000]"
  "biometricEnabled st_loaded = True"
  "privateMode st_loaded = False"
  "ls_webauthn_credential_id (storage st_loaded) = None"
  by (simp_all add: st_loaded_def stored_two_def fresh_storage_def init_def Let_def
        initial_cells_def setTodos_def setRegisteredLocations_def)

lemma todo_ids: "todo_id todo_legacy = 1" "todo_id todo_milk = 2"
  by (simp_all add: todo_legacy_def todo_milk_def)

theorem toggleComplete_frame_witness:
  "todos (toggleComplete 2 (toggleComplete 2 st_loaded)) = [todo_legacy, todo_milk]
   \<and> todos (toggleComplete 2 st_loaded) = [todo_legacy, todo_milk\<lparr>completed := Some True\<rparr>]"
proof -
  have c: "completed todo_milk = Some False"
    by (simp add: todo_milk_def)
  from toggleComplete_frame [of 2 st_loaded]
  show ?thesis
    by (simp add: st_loaded_cells c todo_ids todos_toggleComplete truthy_bool_def)
qed

section \<open>AuthGate: the outcome of a run\<close>

lemma js_ne: "js (c # cs) \<noteq> []"
  by (simp add: js_def)

lemma atob_ok_cred: "atob_ok (js ''Y3JlZC0x'')"
  by (simp add: atob_ok_def strip_padding_def js_def ascii_whitespace_def base64_char_def)

lemma auth_run_cases:
  "auth_run env action ls = (ViaWebAuthn, True, ls)
   \<or> (\<exists>cred. action = SetupBiometric \<and> auth_run env action ls =
         (ViaWebAuthn, True, ls\<lparr>ls_webauthn_credential_id := Some (fst cred),
                                 ls_webauthn_raw_id := Some (snd cred)\<rparr>))
   \<or> auth_run env action ls = (ViaFallbackConfirm, confirm_fallback env, ls)
   \<or> auth_run env action ls
       = (ViaErrorFallback, confirm_use_simple env \<and> confirm_continue env, ls)"
  by (auto simp: auth_run_def auth_try_def auth_fallback_def Let_def
        split: platform_reply.splits option.splits)

lemma auth_run_storage: "action \<noteq> SetupBiometric \<Longrightarrow> snd (snd (auth_run env action ls)) = ls"
  using auth_run_cases [of env action ls] by auto

lemma auth_run_keys:
  "ls_todos (snd (snd (auth_run env action ls))) = ls_todos ls
   \<and> ls_locations (snd (snd (auth_run env action ls))) = ls_locations ls
   \<and> ls_biometricEnabled (snd (snd (auth_run env action ls))) = ls_biometricEnabled ls"
  using auth_run_cases [of env action ls] by auto

lemma performBiometricAuth_state:
  "action \<noteq> SetupBiometric \<Longrightarrow>
   snd (performBiometricAuth env action s) = s\<lparr>authenticating := False\<rparr>"
  by (simp add: performBiometricAuth_def Let_def auth_run_storage)

lemma performBiometricAuth_cells:
  "todos (snd (performBiometricAuth env action s)) = todos s"
  "registeredLocations (snd (performBiometricAuth env action s)) = registeredLocations s"
  "privateMode (snd (performBiometricAuth env action s)) = privateMode s"
  "biometricEnabled (snd (performBiometricAuth env action s)) = biometricEnabled s"
  "currentPage (snd (performBiometricAuth env action s)) = currentPage s"
  "ls_todos (storage (snd (performBiometricAuth env action s))) = ls_todos (storage s)"
  "ls_locations (storage (snd (performBiometricAuth env action s))) = ls_locations (storage s)"
  by (simp_all add: performBiometricAuth_def Let_def auth_run_keys)

lemma performBiometricAuth_absent:
  "\<not> webauthn_available env \<Longrightarrow>
   fst (performBiometricAuth env action s) = confirm_fallback env"
  by (simp add: performBiometricAuth_def Let_def auth_run_def auth_try_def auth_fallback_def)

section \<open>Idempotent removal\<close>

lemma deleteTodo_twice: "deleteTodo c i (deleteTodo True i s) = deleteTodo True i s"
  by (cases c) (simp_all add: deleteTodo_def setTodos_def)

lemma deleteTodo_absent:
  "i \<notin> todo_id ` set (todos s) \<Longrightarrow> todos (deleteTodo c i s) = todos s"
proof -
  assume "i \<notin> todo_id ` set (todos s)"
  then have "filter (\<lambda>todo. todo_id todo \<noteq> i) (todos s) = todos s"
    by (intro filter_True) auto
  then show ?thesis by (simp add: deleteTodo_def setTodos_def)
qed

lemma deleteLocation_ok:
  "biometricEnabled s \<Longrightarrow> fst (performBiometricAuth env DeletePlace s) \<Longrightarrow>
   deleteLocation env i s =
     setRegisteredLocations (filter (\<lambda>loc. loc_id loc \<noteq> i) (registeredLocations s))
       (s\<lparr>authenticating := False\<rparr>)"
  by (simp add: deleteLocation_def Let_def performBiometricAuth_state)

lemma deleteLocation_twice:
  assumes "biometricEnabled s" "fst (performBiometricAuth env1 DeletePlace s)"
  shows "deleteLocation env2 i (deleteLocation env1 i s) = deleteLocation env1 i s"
proof -
  define s1 where "s1 = deleteLocation env1 i s"
  have s1: "s1 = setRegisteredLocations (filter (\<lambda>loc. loc_id loc \<noteq> i) (registeredLocations s))
       (s\<lparr>authenticating := False\<rparr>)"
    unfolding s1_def using assms by (rule deleteLocation_ok)
  have a: "s1\<lparr>authenticating := False\<rparr> = s1"
    by (simp add: s1 setRegisteredLocations_def)
  have b: "biometricEnabled s1" using assms(1) by (simp add: s1 setRegisteredLocations_def)
  have r: "registeredLocations s1 = filter (\<lambda>loc. loc_id loc \<noteq> i) (registeredLocations s)"
    by (simp add: s1 setRegisteredLocations_def)
  have c: "setRegisteredLocations (filter (\<lambda>loc. loc_id loc \<noteq> i) (registeredLocations s1)) s1 = s1"
    unfolding r by (simp add: s1 setRegisteredLocations_def)
  have "deleteLocation env2 i s1 = s1"
    using b by (simp add: deleteLocation_def Let_def performBiometricAuth_state a c)
  then show ?thesis by (simp add: s1_def)
qed

lemma deleteLocation_absent:
  "i \<notin> loc_id ` set (registeredLocations s) \<Longrightarrow>
   registeredLocations (deleteLocation env i s) = registeredLocations s"
proof -
  assume "i \<notin> loc_id ` set (registeredLocations s)"
  then have "filter (\<lambda>loc. loc_id loc \<noteq> i) (registeredLocations s) = registeredLocations s"
    by (intro filter_True) auto
  then show ?thesis
    by (simp add: deleteLocation_def Let_def setRegisteredLocations_def performBiometricAuth_cells)
qed

text \<open>
  C8. For every state and every id: a task deletion that the user confirms, followed by
  a second deletion of the same id (confirmed or not), leaves the state that the first
  one left, and deleting an id that no task has leaves the task list unchanged; a zone
  deletion that passes the gate, followed by a second deletion of the same id (passing
  or not), leaves the state that the first one left, and deleting an id that no zone
  has leaves the zone list unchanged. No case is an error.
\<close>

theorem remove_idempotent:
  "deleteTodo c i (deleteTodo True i s) = deleteTodo True i s
   \<and> (i \<notin> todo_id ` set (todos s) \<longrightarrow> todos (deleteTodo c i s) = todos s)
   \<and> (biometricEnabled s \<and> fst (performBiometricAuth env1 DeletePlace s)
        \<longrightarrow> deleteLocation env2 i (deleteLocation env1 i s) = deleteLocation env1 i s)
   \<and> (i \<notin> loc_id ` set (registeredLocations s)
        \<longrightarrow> registeredLocations (deleteLocation env i s) = registeredLocations s)"
  by (simp add: deleteTodo_twice deleteTodo_absent deleteLocation_twice deleteLocation_absent)

theorem remove_idempotent_witness:
  "todos (deleteTodo True 2 st_loaded) = [todo_legacy]
   \<and> deleteTodo True 2 (deleteTodo True 2 st_loaded) = deleteTodo True 2 st_loaded
   \<and> todos (deleteTodo True 7 st_loaded) = [todo_legacy, todo_milk]
   \<and> registeredLocations (deleteLocation env_weak 1000 st_loaded) = []
   \<and> deleteLocation env_denied 1000 (deleteLocation env_weak 1000 st_loaded)
       = deleteLocation env_weak 1000 st_loaded
   \<and> registeredLocations (deleteLocation env_weak 7 st_loaded) = [jaist 1000]"
proof -
  have ok: "fst (performBiometricAuth env_weak DeletePlace st_loaded)"
    by (simp add: performBiometricAuth_absent env_weak_def)
  have one: "todos (deleteTodo True 2 st_loaded) = [todo_legacy]"
    by (simp add: deleteTodo_def todos_setTodos st_loaded_cells todo_ids)
  have gone: "registeredLocations (deleteLocation env_weak 1000 st_loaded) = []"
    using ok by (simp add: deleteLocation_ok st_loaded_cells setRegisteredLocations_def jaist_def)
  from remove_idempotent
         [where s = st_loaded and i = 2 and c = True and ?env1.0 = env_weak
            and ?env2.0 = env_denied and env = env_weak]
       remove_idempotent
         [where s = st_loaded and i = 7 and c = True and ?env1.0 = env_weak
            and ?env2.0 = env_denied and env = env_weak]
       remove_idempotent
         [where s = st_loaded and i = 1000 and c = True and ?env1.0 = env_weak
            and ?env2.0 = env_denied and env = env_weak]
       ok one gone
  show ?thesis
    by (simp add: st_loaded_cells todo_ids jaist_def)
qed

section \<open>AuthGate: guarded operations\<close>

lemma same_stores_auth: "same_stores s (snd (performBiometricAuth env action s))"
  by (simp add: same_stores_def performBiometricAuth_cells)

lemma same_stores_refl: "same_stores s s" "same_stores s (s\<lparr>currentPage := p\<rparr>)"
  by (simp_all add: same_stores_def)

text \<open>
  C4. For each guarded operation (switching private mode on, registering a zone,
  deleting a zone) and every state: when no credential is registered
  (\<open>biometricEnabled\<close> is false) or the verification step returns false, the
  operation returns a state with the same task store, zone store and private-mode flag.
  No exception leaves the verification step: whatever its \<open>try\<close> block throws
  becomes the boolean answer of the fallback dialogs, so the handlers are total.
  In particular a request for private mode with nothing registered only routes to the
  settings page, and private mode stays off.
\<close>

theorem guarded_operations_fail_closed:
  "(\<not> privateMode s
      \<and> (\<not> biometricEnabled s \<or> \<not> fst (performBiometricAuth env EnablePrivateMode s))
      \<longrightarrow> same_stores s (togglePrivateMode env s))
   \<and> (\<not> biometricEnabled s \<or> \<not> fst (performBiometricAuth env RegisterPlace s)
      \<longrightarrow> same_stores s (registerCurrentLocation env now s))
   \<and> (\<not> biometricEnabled s \<or> \<not> fst (performBiometricAuth env DeletePlace s)
      \<longrightarrow> same_stores s (deleteLocation env i s))
   \<and> (\<not> privateMode s \<and> \<not> biometricEnabled s
      \<longrightarrow> togglePrivateMode env s = s\<lparr>currentPage := settings\<rparr>)
   \<and> (auth_try env action ls = Inl ()
      \<longrightarrow> auth_run env action ls
            = (ViaErrorFallback, confirm_use_simple env \<and> confirm_continue env, ls))"
proof (intro conjI impI)
  assume "auth_try env action ls = Inl ()"
  then show "auth_run env action ls
            = (ViaErrorFallback, confirm_use_simple env \<and> confirm_continue env, ls)"
    by (simp add: auth_run_def)
next
  assume "\<not> privateMode s
      \<and> (\<not> biometricEnabled s \<or> \<not> fst (performBiometricAuth env EnablePrivateMode s))"
  then show "same_stores s (togglePrivateMode env s)"
    by (auto simp: togglePrivateMode_def Let_def same_stores_auth same_stores_refl)
next
  assume "\<not> biometricEnabled s \<or> \<not> fst (performBiometricAuth env RegisterPlace s)"
  then show "same_stores s (registerCurrentLocation env now s)"
    by (auto simp: registerCurrentLocation_def Let_def same_stores_auth same_stores_refl
          split: option.splits)
next
  assume "\<not> biometricEnabled s \<or> \<not> fst (performBiometricAuth env DeletePlace s)"
  then show "same_stores s (deleteLocation env i s)"
    by (auto simp: deleteLocation_def Let_def same_stores_auth same_stores_refl)
next
  assume "\<not> privateMode s \<and> \<not> biometricEnabled s"
  then show "togglePrivateMode env s = s\<lparr>currentPage := settings\<rparr>"
    by (simp add: togglePrivateMode_def)
qed

lemma st_located_cells:
  "todos st_located = [todo_legacy, todo_milk]"
  "registeredLocations st_located = [jaist 1000]"
  "biometricEnabled st_located = True"
  "privateMode st_located = False"
  "currentLocation st_located = Some (36.4507, 136.5933)"
  "newLocationName st_located = js ''lab''"
  by (simp_all add: st_located_def handlePositionUpdate_def st_loaded_cells)

lemma fresh_cells:
  "biometricEnabled (init 1000 fresh_storage) = False"
  "privateMode (init 1000 fresh_storage) = False"
  by (simp_all add: fresh_storage_def init_def Let_def initial_cells_def setRegisteredLocations_def)

theorem guarded_operations_fail_closed_witness:
  "fst (performBiometricAuth env_denied EnablePrivateMode st_located) = False
   \<and> privateMode (togglePrivateMode env_denied st_located) = False
   \<and> todos (togglePrivateMode env_denied st_located) = [todo_legacy, todo_milk]
   \<and> registeredLocations (registerCurrentLocation env_denied 2000 st_located) = [jaist 1000]
   \<and> registeredLocations (deleteLocation env_denied 1000 st_located) = [jaist 1000]
   \<and> togglePrivateMode env_weak (init 1000 fresh_storage)
       = (init 1000 fresh_storage)\<lparr>currentPage := settings\<rparr>
   \<and> privateMode (togglePrivateMode env_weak (init 1000 fresh_storage)) = False
   \<and> auth_try env_rejected_accept EnablePrivateMode stored_cred = Inl ()
   \<and> auth_run env_rejected_accept EnablePrivateMode stored_cred
       = (ViaErrorFallback, True, stored_cred)"
proof -
  have no: "fst (performBiometricAuth env_denied a st_located) = False" for a
    by (simp add: performBiometricAuth_absent env_denied_def)
  have thrown: "auth_try env_rejected_accept EnablePrivateMode stored_cred = Inl ()"
    by (simp add: auth_try_def Let_def env_rejected_accept_def stored_cred_def
          fresh_storage_def truthy_str_def js_ne atob_ok_cred)
  have yes: "confirm_use_simple env_rejected_accept" "confirm_continue env_rejected_accept"
    by (simp_all add: env_rejected_accept_def)
  from guarded_operations_fail_closed
         [where s = st_located and env = env_denied and now = 2000 and i = 1000
            and action = EnablePrivateMode and ls = stored_cred]
       guarded_operations_fail_closed
         [where s = "init 1000 fresh_storage" and env = env_weak and now = 2000 and i = 1000
            and action = EnablePrivateMode and ls = stored_cred]
       guarded_operations_fail_closed
         [where s = st_located and env = env_rejected_accept and now = 2000 and i = 1000
            and action = EnablePrivateMode and ls = stored_cred]
       no thrown yes
  show ?thesis
    by (simp add: same_stores_def st_located_cells fresh_cells)
qed

section \<open>AuthGate: assurance levels\<close>

text \<open>
  C5 as stated fails: the value \<open>true\<close> is returned by a run that succeeds through
  WebAuthn and by runs that succeed only through a fallback confirmation (the platform
  absent, or the platform rejecting and the user accepting the two dialogs).
\<close>

theorem auth_outcome_counterexample:
  "fst (auth_run env_strong SetupBiometric fresh_storage) = ViaWebAuthn
   \<and> fst (performBiometricAuth env_strong SetupBiometric (init 1000 fresh_storage)) = True
   \<and> fst (auth_run env_weak SetupBiometric fresh_storage) = ViaFallbackConfirm
   \<and> fst (performBiometricAuth env_weak SetupBiometric (init 1000 fresh_storage)) = True
   \<and> fst (auth_run env_strong EnablePrivateMode stored_cred) = ViaWebAuthn
   \<and> fst (performBiometricAuth env_strong EnablePrivateMode (init 1000 stored_cred)) = True
   \<and> fst (auth_run env_rejected_accept EnablePrivateMode stored_cred) = ViaErrorFallback
   \<and> fst (performBiometricAuth env_rejected_accept EnablePrivateMode (init 1000 stored_cred)) = True"
  by (simp add: performBiometricAuth_def auth_run_def auth_try_def auth_fallback_def Let_def
        env_strong_def env_weak_def env_rejected_accept_def fresh_storage_def stored_cred_def
        truthy_str_def js_ne atob_ok_cred init_def initial_cells_def setRegisteredLocations_def)

text \<open>
  C5, amended. The outcome that \<open>performBiometricAuth\<close> returns is one boolean, which
  does not tell the two assurance levels apart: a run that leaves through the WebAuthn
  path returns true, a run that leaves through the fallback dialog returns the user's
  answer, and a run that leaves through the error fallback returns the conjunction of
  the user's two answers.
\<close>

theorem auth_outcome_boolean:
  "fst (performBiometricAuth env action s) = fst (snd (auth_run env action (storage s)))
   \<and> (fst (auth_run env action ls) = ViaWebAuthn
        \<longrightarrow> fst (snd (auth_run env action ls)) = True)
   \<and> (fst (auth_run env action ls) = ViaFallbackConfirm
        \<longrightarrow> fst (snd (auth_run env action ls)) = confirm_fallback env)
   \<and> (fst (auth_run env action ls) = ViaErrorFallback
        \<longrightarrow> fst (snd (auth_run env action ls)) = (confirm_use_simple env \<and> confirm_continue env))"
  using auth_run_cases [of env action ls]
  by (auto simp: performBiometricAuth_def Let_def)

theorem auth_outcome_boolean_witness:
  "fst (auth_run env_strong SetupBiometric fresh_storage) = ViaWebAuthn
   \<and> fst (snd (auth_run env_strong SetupBiometric fresh_storage)) = True
   \<and> fst (auth_run env_weak SetupBiometric fresh_storage) = ViaFallbackConfirm
   \<and> fst (snd (auth_run env_weak SetupBiometric fresh_storage)) = True
   \<and> fst (auth_run env_rejected_accept EnablePrivateMode stored_cred) = ViaErrorFallback
   \<and> fst (snd (auth_run env_rejected_accept EnablePrivateMode stored_cred)) = True"
proof -
  have r: "fst (auth_run env_strong SetupBiometric fresh_storage) = ViaWebAuthn"
    "fst (auth_run env_weak SetupBiometric fresh_storage) = ViaFallbackConfirm"
    "fst (auth_run env_rejected_accept EnablePrivateMode stored_cred) = ViaErrorFallback"
    by (simp_all add: auth_run_def auth_try_def auth_fallback_def Let_def
        env_strong_def env_weak_def env_rejected_accept_def fresh_storage_def stored_cred_def
        truthy_str_def js_ne atob_ok_cred)
  have c: "confirm_fallback env_weak" "confirm_use_simple env_rejected_accept"
    "confirm_continue env_rejected_accept"
    by (simp_all add: env_weak_def env_rejected_accept_def)
  from auth_outcome_boolean [where env = env_strong and action = SetupBiometric and ls = fresh_storage and s = st_loaded]
       auth_outcome_boolean [where env = env_weak and action = SetupBiometric and ls = fresh_storage and s = st_loaded]
       auth_outcome_boolean [where env = env_rejected_accept and action = EnablePrivateMode and ls = stored_cred and s = st_loaded]
       r c
  show ?thesis by simp
qed

section \<open>Persistence of the task store\<close>

lemmas handler_defs =
  enableBiometric_def togglePrivateMode_def resetCredential_def toggleComplete_def
  addTodo_def startEdit_def saveEdit_def deleteTodo_def toggleDetail_def
  deleteAllCompleted_def handlePositionUpdate_def registerCurrentLocation_def
  deleteLocation_def setTodos_def setRegisteredLocations_def setBiometricEnabled_def

lemma step_keeps_reload:
  "todos (init now (storage s)) = todos s \<Longrightarrow> todos (step m e s) \<noteq> [] \<Longrightarrow>
   todos (init now (storage (step m e s))) = todos (step m e s)"
  by (cases e)
     (auto simp: todos_init handler_defs Let_def performBiometricAuth_cells
           split: option.splits if_splits)

lemma trim_milk: "trim (js ''milk'') \<noteq> []"
  by (simp add: trim_def js_whitespace_def js_def)

text \<open>
  C6 as stated fails: after the only task is deleted the task list is empty, the effect
  skips the write, and a reload brings the deleted task back.
\<close>

theorem persistence_counterexample:
  "todos state_add_delete = []
   \<and> todos (init 3000 (storage state_add_delete)) = [todo_milk]"
  by (simp add: state_add_delete_def todos_init addTodo_def deleteTodo_def setTodos_def
        trim_milk init_def Let_def initial_cells_def setRegisteredLocations_def
        fresh_storage_def todo_milk_def)

lemma st_loaded_store: "ls_todos (storage st_loaded) = Some [todo_legacy, todo_milk]"
  by (simp add: st_loaded_def stored_two_def fresh_storage_def init_def Let_def
        initial_cells_def setTodos_def setRegisteredLocations_def)

text \<open>
  C6, amended. Each task mutation (add, edit, toggle completion, delete, bulk delete of
  completed) whose resulting task list is not empty preserves the invariant that a
  reload from the store reproduces the task list in memory.
\<close>

theorem persistence_preserved_nonempty:
  "(reload_agrees n s \<and> todos (addTodo now stamp s) \<noteq> []
      \<longrightarrow> reload_agrees n (addTodo now stamp s))
   \<and> (reload_agrees n s \<and> todos (saveEdit s) \<noteq> [] \<longrightarrow> reload_agrees n (saveEdit s))
   \<and> (reload_agrees n s \<and> todos (toggleComplete i s) \<noteq> []
      \<longrightarrow> reload_agrees n (toggleComplete i s))
   \<and> (reload_agrees n s \<and> todos (deleteTodo c i s) \<noteq> []
      \<longrightarrow> reload_agrees n (deleteTodo c i s))
   \<and> (reload_agrees n s \<and> todos (deleteAllCompleted c s) \<noteq> []
      \<longrightarrow> reload_agrees n (deleteAllCompleted c s))"
  using step_keeps_reload [where now = n and s = s and e = "ClickAddTodo now stamp"]
        step_keeps_reload [where now = n and s = s and e = ClickSaveEdit]
        step_keeps_reload [where now = n and s = s and e = "ClickToggleComplete i"]
        step_keeps_reload [where now = n and s = s and e = "ClickDeleteTodo c i"]
        step_keeps_reload [where now = n and s = s and e = "ClickDeleteAllCompleted c"]
  by (simp add: reload_agrees_def)

theorem persistence_preserved_nonempty_witness:
  "reload_agrees 3000 st_loaded
   \<and> todos (deleteTodo True 2 st_loaded) = [todo_legacy]
   \<and> reload_agrees 3000 (deleteTodo True 2 st_loaded)
   \<and> todos (toggleComplete 2 st_loaded) = [todo_legacy, todo_milk\<lparr>completed := Some True\<rparr>]
   \<and> reload_agrees 3000 (toggleComplete 2 st_loaded)"
proof -
  have a: "reload_agrees 3000 st_loaded"
    by (simp add: reload_agrees_def todos_init st_loaded_store st_loaded_cells)
  have d: "todos (deleteTodo True 2 st_loaded) = [todo_legacy]"
    by (simp add: deleteTodo_def todos_setTodos st_loaded_cells todo_ids)
  have t: "todos (toggleComplete 2 st_loaded) = [todo_legacy, todo_milk\<lparr>completed := Some True\<rparr>]"
    by (simp add: todos_toggleComplete st_loaded_cells todo_ids truthy_bool_def todo_milk_def)
  from persistence_preserved_nonempty [where n = 3000 and s = st_loaded and i = 2 and c = True]
       a d t
  show ?thesis by simp
qed

section \<open>Private mode and the credential\<close>




lemma run_append: "run m (xs @ ys) s = run m ys (run m xs s)"
  by (induction xs arbitrary: s) simp_all






lemma st_settings:
  "run exact_math [Navigate settings] (init 1000 fresh_storage)
     = (init 1000 fresh_storage)\<lparr>currentPage := settings\<rparr>"
  by simp






end
